theory Spec2Isabelle
  imports Complex_Main "HOL-Library.Word"
begin

section \<open>Automated deployment analysis: the ANALYSIS stage executor\<close>

text \<open>
  A shallow embedding of the Go package \<^verbatim>\<open>pkg/app/piped/executor/analysis\<close>: the stage
  executor (\<^verbatim>\<open>Execute\<close>, \<^verbatim>\<open>saveElapsedTime\<close>, \<^verbatim>\<open>retrievePreviousElapsedTime\<close>, the
  \<^verbatim>\<open>newAnalyzerFor...\<close> constructors, the \<^verbatim>\<open>get...Config\<close> resolvers and \<^verbatim>\<open>render\<close>) and
  the dynamic metrics analyzer (\<^verbatim>\<open>newDynamicMetricsAnalyzer\<close>, \<^verbatim>\<open>run\<close>).

  Conventions.
  \<^item> A Go \<^verbatim>\<open>(value, error)\<close> result is a sum \<open>error + value\<close>, \<open>Inl\<close> the error; a nil
    pointer dereference is the panic \<open>NilDereference\<close>.
  \<^item> \<^verbatim>\<open>time.Duration\<close> is an \<^verbatim>\<open>int64\<close> of nanoseconds: a 64-bit word, read signed by
    \<open>sint\<close>; \<open>+\<close> and \<open>-\<close> wrap as Go's do.
  \<^item> A Go \<^verbatim>\<open>map[string]T\<close> is a partial function \<open>string \<rightharpoonup> T\<close>; the nil map is the
    empty one (a lookup in either reports \<^verbatim>\<open>ok == false\<close>).
  \<^item> What the package calls but does not define (the Go standard library, the
    collaborators behind interfaces, other packages) is a parameter: a field of the
    records \<open>goLib\<close> and \<open>World\<close>. Nothing is assumed about a parameter.
\<close>

subsection \<open>Configuration data\<close>

type_synonym duration = "64 word"

type_synonym liberr = string

text \<open>The errors the package returns; \<open>liberr\<close> is the message of a wrapped error.\<close>

datatype error =
    MarshalFailed liberr
  | ParseFailed liberr
  | ApplyFailed liberr
  | UnmarshalFailed liberr
  | TemplateNotFound string
  | InvalidMetrics liberr
  | UnknownProvider string
  | ProviderFailed liberr
  | DynamicTemplateNotFound string
  | FailureLimitExceeded string int
  | NilDereference
  | NonPositiveInterval

text \<open>
  How a call ends: it returns a value, it panics with an error, or it is still blocked
  when the listed events are used up.
\<close>

datatype 'a exec = Returns 'a | Panics error | Blocks

record AnalysisExpected =
  Expected_Min :: "real option"
  Expected_Max :: "real option"

record AnalysisMetrics =
  Metrics_Provider :: string
  Metrics_Query :: string
  Metrics_Interval :: duration
  Metrics_FailureLimit :: int
  Metrics_SkipOnNoData :: bool
  Metrics_Expected :: AnalysisExpected

record AnalysisLog =
  Log_Provider :: string
  Log_Query :: string
  Log_Interval :: duration
  Log_FailureLimit :: int
  Log_SkipOnNoData :: bool

record AnalysisHTTP =
  HTTP_URL :: string
  HTTP_Interval :: duration
  HTTP_FailureLimit :: int
  HTTP_SkipOnNoData :: bool
  HTTP_Timeout :: duration

text \<open>\<^verbatim>\<open>AnalysisTemplateRef\<close>: the name of a template and the user's arguments for it.\<close>

record AnalysisTemplateRef =
  Ref_Name :: string
  Ref_Args :: "string \<rightharpoonup> string"

text \<open>
  \<^verbatim>\<open>TemplatableAnalysisMetrics\<close>, \<^verbatim>\<open>TemplatableAnalysisLog\<close> and \<^verbatim>\<open>TemplatableAnalysisHTTP\<close>
  each embed the inline check and carry a \<^verbatim>\<open>Template\<close> reference.
\<close>

record 'c Templatable =
  Inline :: 'c
  Template :: AnalysisTemplateRef

type_synonym TemplatableAnalysisMetrics = "AnalysisMetrics Templatable"
type_synonym TemplatableAnalysisLog = "AnalysisLog Templatable"
type_synonym TemplatableAnalysisHTTP = "AnalysisHTTP Templatable"

record AnalysisTemplateSpec =
  Spec_Metrics :: "string \<rightharpoonup> AnalysisMetrics"
  Spec_Logs :: "string \<rightharpoonup> AnalysisLog"
  Spec_HTTPs :: "string \<rightharpoonup> AnalysisHTTP"

definition emptyTemplateSpec :: AnalysisTemplateSpec where
  "emptyTemplateSpec = \<lparr>Spec_Metrics = Map.empty, Spec_Logs = Map.empty, Spec_HTTPs = Map.empty\<rparr>"

record AnalysisStageOptions =
  Options_Duration :: duration
  Options_Metrics :: "TemplatableAnalysisMetrics list"
  Options_Logs :: "TemplatableAnalysisLog list"
  Options_Https :: "TemplatableAnalysisHTTP list"

record AnalysisDynamicMetrics =
  Dynamic_Template :: string
  Dynamic_PrimaryArgs :: "string \<rightharpoonup> string"
  Dynamic_CanaryArgs :: "string \<rightharpoonup> string"
  Dynamic_BaselineArgs :: "string \<rightharpoonup> string"

text \<open>
  The deployment configuration, as far as \<^verbatim>\<open>render\<close> reads it: the kind of application
  and, behind a pointer, the Kubernetes deployment spec with its input namespace.
\<close>

datatype Kind = KindKubernetesApp | KindOtherApp string

record KubernetesDeploymentSpec =
  Input_Namespace :: string

record Config =
  Config_Kind :: Kind
  Config_KubernetesDeploymentSpec :: "KubernetesDeploymentSpec option"

record DeploySource =
  RepoDir :: string
  DeploymentConfig :: "Config option"

datatype StageStatus =
    STAGE_NOT_STARTED_YET
  | STAGE_RUNNING
  | STAGE_SUCCESS
  | STAGE_FAILURE
  | STAGE_CANCELLED

datatype StopSignalType = StopSignalNone | StopSignalTerminate | StopSignalCancel | StopSignalTimeout

subsection \<open>The executor and its collaborators\<close>

text \<open>
  \<^verbatim>\<open>type Executor struct\<close>: the embedded \<^verbatim>\<open>executor.Input\<close> (the fields the package reads)
  and the four fields \<^verbatim>\<open>Execute\<close> sets. \<^verbatim>\<open>startTime\<close> is in Unix seconds, the only form
  in which the package uses it.
\<close>

record Executor =
  Application_Name :: string
  Stage_Id :: string
  Stage_Status :: StageStatus
  StageConfig_AnalysisStageOptions :: "AnalysisStageOptions option"
  repoDir :: string
  config :: "Config option"
  startTime :: int
  previousElapsedTime :: duration

subsection \<open>Template rendering\<close>

text \<open>
  \<^verbatim>\<open>type templateArgs struct\<close>: the data a template is executed on. The nested structs
  \<^verbatim>\<open>App\<close> and \<^verbatim>\<open>K8s\<close> are flattened into their fields.
\<close>

record templateArgs =
  App_Name :: string
  App_Env :: string
  K8s_Namespace :: string
  Args :: "string \<rightharpoonup> string"

text \<open>
  The first part of \<^verbatim>\<open>render\<close> (up to the call of \<^verbatim>\<open>json.Marshal\<close>): the template
  arguments. \<^verbatim>\<open>App.Env\<close> is set to the empty string (the source: "TODO: Populate Env");
  \<^verbatim>\<open>K8s\<close> keeps its zero value unless the application is a Kubernetes one. Reading
  \<^verbatim>\<open>e.config.Kind\<close> or \<^verbatim>\<open>e.config.KubernetesDeploymentSpec.Input\<close> through a nil pointer
  panics.
\<close>

definition renderArgs :: "Executor \<Rightarrow> (string \<rightharpoonup> string) \<Rightarrow> error + templateArgs" where
  "renderArgs e customArgs =
     (let args = \<lparr>App_Name = Application_Name e, App_Env = [], K8s_Namespace = [],
                   Args = customArgs\<rparr>
      in case config e of
           None \<Rightarrow> Inl NilDereference
         | Some c \<Rightarrow>
             if Config_Kind c = KindKubernetesApp then
               (case Config_KubernetesDeploymentSpec c of
                  None \<Rightarrow> Inl NilDereference
                | Some k \<Rightarrow>
                    let namespace =
                      (if Input_Namespace k \<noteq> [] then Input_Namespace k else ''default'')
                    in Inr (args\<lparr>K8s_Namespace := namespace\<rparr>))
             else Inr args)"

text \<open>
  Go's \<^verbatim>\<open>text/template\<close>, which \<^verbatim>\<open>render\<close> calls with the package's default options
  (no \<^verbatim>\<open>Option("missingkey=error")\<close>). A parsed template is a list of nodes: literal
  text, an action that prints a chain of fields of the data (\<^verbatim>\<open>{{ .Args.job }}\<close> is
  \<open>FieldNode [''Args'', ''job'']\<close>), or any other action, whose execution is a parameter.
  A field chain is evaluated as the library's \<^verbatim>\<open>evalField\<close> does on a value of type
  \<^verbatim>\<open>templateArgs\<close>:
  \<^item> a name that is a field of the struct at hand selects it, any other name is the
    error "can't evaluate field";
  \<^item> a name applied to the map \<^verbatim>\<open>Args\<close> is looked up as a key; for a missing key the
    result is the invalid value, with no error (the documented default,
    \<^verbatim>\<open>missingkey=default\<close>), and so is every field of the invalid value;
  \<^item> a name applied to a string is an error.
  Printing the invalid value writes \<^verbatim>\<open><no value>\<close>; a string prints as itself; a struct or
  the map prints as \<^verbatim>\<open>fmt.Sprint\<close> formats it (a parameter).
\<close>

datatype 'o node = TextNode string | FieldNode "string list" | OtherNode 'o

datatype tvalue = VDot | VApp | VK8s | VArgs | VString string | VNoValue

definition cantEvaluateField :: "string \<Rightarrow> liberr" where
  "cantEvaluateField f = ''cannot evaluate field '' @ f"

fun evalField :: "templateArgs \<Rightarrow> tvalue \<Rightarrow> string \<Rightarrow> liberr + tvalue" where
  "evalField a VDot f =
     (if f = ''App'' then Inr VApp
      else if f = ''K8s'' then Inr VK8s
      else if f = ''Args'' then Inr VArgs
      else Inl (cantEvaluateField f))"
| "evalField a VApp f =
     (if f = ''Name'' then Inr (VString (App_Name a))
      else if f = ''Env'' then Inr (VString (App_Env a))
      else Inl (cantEvaluateField f))"
| "evalField a VK8s f =
     (if f = ''Namespace'' then Inr (VString (K8s_Namespace a))
      else Inl (cantEvaluateField f))"
| "evalField a VArgs f =
     (case Args a f of Some v \<Rightarrow> Inr (VString v) | None \<Rightarrow> Inr VNoValue)"
| "evalField a (VString s) f = Inl (cantEvaluateField f)"
| "evalField a VNoValue f = Inr VNoValue"

fun evalFieldChain :: "templateArgs \<Rightarrow> tvalue \<Rightarrow> string list \<Rightarrow> liberr + tvalue" where
  "evalFieldChain a receiver [] = Inr receiver"
| "evalFieldChain a receiver (f # fs) =
     (case evalField a receiver f of
        Inl err \<Rightarrow> Inl err
      | Inr v \<Rightarrow> evalFieldChain a v fs)"

text \<open>
  The functions of the Go standard library that \<^verbatim>\<open>render\<close> calls and that are not
  modelled above.
\<close>

record 'o goLib =
  jsonMarshal :: "AnalysisTemplateSpec \<Rightarrow> liberr + string"
  templateParse :: "string \<Rightarrow> liberr + 'o node list"
  execOther :: "'o \<Rightarrow> templateArgs \<Rightarrow> liberr + string"
  fmtSprint :: "templateArgs \<Rightarrow> tvalue \<Rightarrow> string"
  jsonUnmarshal :: "string \<Rightarrow> liberr + AnalysisTemplateSpec"

fun printValue :: "'o goLib \<Rightarrow> templateArgs \<Rightarrow> tvalue \<Rightarrow> string" where
  "printValue L a (VString s) = s"
| "printValue L a VNoValue = ''<no value>''"
| "printValue L a v = fmtSprint L a v"

fun execNode :: "'o goLib \<Rightarrow> templateArgs \<Rightarrow> 'o node \<Rightarrow> liberr + string" where
  "execNode L a (TextNode s) = Inr s"
| "execNode L a (FieldNode chain) =
     (case evalFieldChain a VDot chain of
        Inl err \<Rightarrow> Inl err
      | Inr v \<Rightarrow> Inr (printValue L a v))"
| "execNode L a (OtherNode x) = execOther L x a"

text \<open>\<^verbatim>\<open>t.Execute(b, args)\<close>: the nodes in order; the first error ends the execution.\<close>

fun templateExecute :: "'o goLib \<Rightarrow> 'o node list \<Rightarrow> templateArgs \<Rightarrow> liberr + string" where
  "templateExecute L [] a = Inr []"
| "templateExecute L (n # ns) a =
     (case execNode L a n of
        Inl err \<Rightarrow> Inl err
      | Inr s \<Rightarrow>
          (case templateExecute L ns a of
             Inl err \<Rightarrow> Inl err
           | Inr rest \<Rightarrow> Inr (s @ rest)))"

text \<open>
  The second part of \<^verbatim>\<open>render\<close>: marshal the template document, parse the text as a
  template, execute it on the arguments, unmarshal the output.
\<close>

definition renderTemplate ::
  "'o goLib \<Rightarrow> templateArgs \<Rightarrow> AnalysisTemplateSpec \<Rightarrow> error + AnalysisTemplateSpec" where
  "renderTemplate L args templateCfg =
     (case jsonMarshal L templateCfg of
        Inl err \<Rightarrow> Inl (MarshalFailed err)
      | Inr cfg \<Rightarrow>
          (case templateParse L cfg of
             Inl err \<Rightarrow> Inl (ParseFailed err)
           | Inr t \<Rightarrow>
               (case templateExecute L t args of
                  Inl err \<Rightarrow> Inl (ApplyFailed err)
                | Inr b \<Rightarrow>
                    (case jsonUnmarshal L b of
                       Inl err \<Rightarrow> Inl (UnmarshalFailed err)
                     | Inr newCfg \<Rightarrow> Inr newCfg))))"

definition render ::
  "'o goLib \<Rightarrow> Executor \<Rightarrow> AnalysisTemplateSpec \<Rightarrow> (string \<rightharpoonup> string)
     \<Rightarrow> error + AnalysisTemplateSpec" where
  "render L e templateCfg customArgs =
     (case renderArgs e customArgs of
        Inl err \<Rightarrow> Inl err
      | Inr args \<Rightarrow> renderTemplate L args templateCfg)"

subsection \<open>Providers and analyzers\<close>

text \<open>
  What a runner returns for one tick: Go's \<^verbatim>\<open>(bool, string, error)\<close>, without the reason
  string, which is only logged. The error is the no-data sentinel or any other error.
\<close>

datatype tickerr = ErrNoDataFound | ErrOther liberr

type_synonym outcome = "bool \<times> tickerr option"

record QueryRange =
  Range_From :: int
  Range_To :: int

record DataPoint =
  Point_Timestamp :: int
  Point_Value :: real

text \<open>
  The provider interfaces, as records of their methods. A point in time (Unix
  nanoseconds) stands for the context of a call wherever the answer of the backend
  depends on when it is asked.
\<close>

record MetricsProvider =
  MetricsProvider_Type :: string
  MetricsProvider_Evaluate :: "string \<Rightarrow> QueryRange \<Rightarrow> AnalysisExpected \<Rightarrow> outcome"

record LogProvider =
  LogProvider_Type :: string
  LogProvider_Evaluate :: "int \<Rightarrow> string \<Rightarrow> outcome"

record HTTPProvider =
  HTTPProvider_Type :: string
  HTTPProvider_Run :: "int \<Rightarrow> AnalysisHTTP \<Rightarrow> outcome"

record PipedAnalysisProvider =
  AnalysisProvider_Name :: string
  AnalysisProvider_Type :: string

text \<open>
  Modelled from the spec: the type \<^verbatim>\<open>analyzer\<close> and its constructor \<^verbatim>\<open>newAnalyzer\<close>
  (file \<^verbatim>\<open>analyzer.go\<close>, not among the sources). The spec, section 4.3: each analyzer
  owns \<^verbatim>\<open>{ id, providerType, query, runner, interval, failureLimit, skipOnNoData,
  consecutiveFailures }\<close>. The order of the arguments is the one of the calls in
  \<^verbatim>\<open>newAnalyzerForMetrics\<close>; the logger arguments are left out.
\<close>

record analyzer =
  analyzer_id :: string
  providerType :: string
  query :: string
  runner :: "int \<Rightarrow> string \<Rightarrow> outcome"
  interval :: duration
  failureLimit :: int
  skipOnNoData :: bool
  consecutiveFailures :: int

definition newAnalyzer ::
  "string \<Rightarrow> string \<Rightarrow> string \<Rightarrow> (int \<Rightarrow> string \<Rightarrow> outcome) \<Rightarrow> duration \<Rightarrow> int \<Rightarrow> bool
     \<Rightarrow> analyzer" where
  "newAnalyzer i ptype q run ival limit skip =
     \<lparr>analyzer_id = i, providerType = ptype, query = q, runner = run, interval = ival,
      failureLimit = limit, skipOnNoData = skip, consecutiveFailures = 0\<rparr>"

text \<open>
  The collaborators of the executor. \<open>timeSince\<close> is what \<^verbatim>\<open>time.Since(e.startTime)\<close>
  returns when the deferred \<^verbatim>\<open>saveElapsedTime\<close> runs: the wall time of the run.
  \<open>runAnalyzer\<close> is what \<^verbatim>\<open>analyzer.run(ctx)\<close> returns for an analyzer in this run.
\<close>

datatype templateLoad = TemplateLoaded AnalysisTemplateSpec | TemplateErrNotFound | TemplateErr liberr

record 'o World =
  lib :: "'o goLib"
  validateMetrics :: "AnalysisMetrics \<Rightarrow> liberr option"
  getAnalysisProvider :: "string \<rightharpoonup> PipedAnalysisProvider"
  metricsfactory_NewProvider ::
    "TemplatableAnalysisMetrics \<Rightarrow> PipedAnalysisProvider \<Rightarrow> liberr + MetricsProvider"
  logfactory_NewProvider :: "PipedAnalysisProvider \<Rightarrow> liberr + LogProvider"
  httpprovider_NewProvider :: "duration \<Rightarrow> HTTPProvider"
  runningDSP_Get :: "liberr + DeploySource"
  loadAnalysisTemplate :: "string \<Rightarrow> templateLoad"
  getStageMetadata :: "string \<rightharpoonup> (string \<rightharpoonup> string)"
  parseDuration :: "string \<Rightarrow> duration option"
  durationString :: "duration \<Rightarrow> string"
  timeNow :: int
  timeSince :: duration
  runAnalyzer :: "analyzer \<Rightarrow> liberr option"
  stopSignal :: StopSignalType
  determineStageStatus :: "StopSignalType \<Rightarrow> StageStatus \<Rightarrow> StageStatus \<Rightarrow> StageStatus"

subsection \<open>Elapsed time\<close>

definition elapsedTimeKey :: string where
  "elapsedTimeKey = ''elapsedTime''"

text \<open>
  \<^verbatim>\<open>saveElapsedTime\<close>: the stage id and the metadata handed to \<^verbatim>\<open>SetStageMetadata\<close>
  (whose error is only logged).
\<close>

definition saveElapsedTime :: "'o World \<Rightarrow> Executor \<Rightarrow> string \<times> (string \<rightharpoonup> string)" where
  "saveElapsedTime w e =
     (let elapsedTime = timeSince w + previousElapsedTime e;
          metadata = [elapsedTimeKey \<mapsto> durationString w elapsedTime]
      in (Stage_Id e, metadata))"

definition retrievePreviousElapsedTime :: "'o World \<Rightarrow> Executor \<Rightarrow> duration" where
  "retrievePreviousElapsedTime w e =
     (case getStageMetadata w (Stage_Id e) of
        None \<Rightarrow> 0
      | Some metadata \<Rightarrow>
          (case metadata elapsedTimeKey of
             None \<Rightarrow> 0
           | Some s \<Rightarrow>
               (case parseDuration w s of
                  None \<Rightarrow> 0
                | Some et \<Rightarrow> et)))"

subsection \<open>Resolving a templatable check\<close>

definition getMetricsConfig ::
  "'o World \<Rightarrow> Executor \<Rightarrow> TemplatableAnalysisMetrics \<Rightarrow> AnalysisTemplateSpec
     \<Rightarrow> (string \<rightharpoonup> string) \<Rightarrow> error + AnalysisMetrics" where
  "getMetricsConfig w e templatableCfg templateCfg args =
     (let name = Ref_Name (Template templatableCfg) in
      if name = [] then
        (let cfg = Inline templatableCfg in
         case validateMetrics w cfg of
           Some err \<Rightarrow> Inl (InvalidMetrics err)
         | None \<Rightarrow> Inr cfg)
      else
        (case render (lib w) e templateCfg args of
           Inl err \<Rightarrow> Inl err
         | Inr rendered \<Rightarrow>
             (case Spec_Metrics rendered name of
                None \<Rightarrow> Inl (TemplateNotFound name)
              | Some cfg \<Rightarrow>
                  (case validateMetrics w cfg of
                     Some err \<Rightarrow> Inl (InvalidMetrics err)
                   | None \<Rightarrow> Inr cfg))))"

definition getLogConfig ::
  "'o World \<Rightarrow> Executor \<Rightarrow> TemplatableAnalysisLog \<Rightarrow> AnalysisTemplateSpec
     \<Rightarrow> (string \<rightharpoonup> string) \<Rightarrow> error + AnalysisLog" where
  "getLogConfig w e templatableCfg templateCfg args =
     (let name = Ref_Name (Template templatableCfg) in
      if name = [] then Inr (Inline templatableCfg)
      else
        (case render (lib w) e templateCfg args of
           Inl err \<Rightarrow> Inl err
         | Inr rendered \<Rightarrow>
             (case Spec_Logs rendered name of
                None \<Rightarrow> Inl (TemplateNotFound name)
              | Some cfg \<Rightarrow> Inr cfg)))"

definition getHTTPConfig ::
  "'o World \<Rightarrow> Executor \<Rightarrow> TemplatableAnalysisHTTP \<Rightarrow> AnalysisTemplateSpec
     \<Rightarrow> (string \<rightharpoonup> string) \<Rightarrow> error + AnalysisHTTP" where
  "getHTTPConfig w e templatableCfg templateCfg args =
     (let name = Ref_Name (Template templatableCfg) in
      if name = [] then Inr (Inline templatableCfg)
      else
        (case render (lib w) e templateCfg args of
           Inl err \<Rightarrow> Inl err
         | Inr rendered \<Rightarrow>
             (case Spec_HTTPs rendered name of
                None \<Rightarrow> Inl (TemplateNotFound name)
              | Some cfg \<Rightarrow> Inr cfg)))"

subsection \<open>Constructing the analyzers\<close>

definition newMetricsProvider ::
  "'o World \<Rightarrow> string \<Rightarrow> TemplatableAnalysisMetrics \<Rightarrow> error + MetricsProvider" where
  "newMetricsProvider w providerName templatable =
     (case getAnalysisProvider w providerName of
        None \<Rightarrow> Inl (UnknownProvider providerName)
      | Some cfg \<Rightarrow>
          (case metricsfactory_NewProvider w templatable cfg of
             Inl err \<Rightarrow> Inl (ProviderFailed err)
           | Inr provider \<Rightarrow> Inr provider))"

definition newLogProvider :: "'o World \<Rightarrow> string \<Rightarrow> error + LogProvider" where
  "newLogProvider w providerName =
     (case getAnalysisProvider w providerName of
        None \<Rightarrow> Inl (UnknownProvider providerName)
      | Some cfg \<Rightarrow>
          (case logfactory_NewProvider w cfg of
             Inl err \<Rightarrow> Inl (ProviderFailed err)
           | Inr provider \<Rightarrow> Inr provider))"

text \<open>\<^verbatim>\<open>fmt.Sprintf("metrics-%d", i)\<close>: the index in decimal.\<close>

fun showNat :: "nat \<Rightarrow> string" where
  "showNat n =
     (if n < 10 then [''0123456789'' ! n]
      else showNat (n div 10) @ [''0123456789'' ! (n mod 10)])"

declare showNat.simps [simp del]

text \<open>
  The runner of a metrics analyzer, the closure in \<^verbatim>\<open>newAnalyzerForMetrics\<close>: the query
  range is the last interval before the call.
\<close>

definition metricsRunner :: "AnalysisMetrics \<Rightarrow> MetricsProvider \<Rightarrow> int \<Rightarrow> string \<Rightarrow> outcome" where
  "metricsRunner cfg provider now q =
     (let queryRange = \<lparr>Range_From = now + sint (- Metrics_Interval cfg), Range_To = now\<rparr>
      in MetricsProvider_Evaluate provider q queryRange (Metrics_Expected cfg))"

definition newAnalyzerForMetrics ::
  "'o World \<Rightarrow> Executor \<Rightarrow> nat \<Rightarrow> TemplatableAnalysisMetrics \<Rightarrow> AnalysisTemplateSpec
     \<Rightarrow> error + analyzer" where
  "newAnalyzerForMetrics w e i templatable templateCfg =
     (case getMetricsConfig w e templatable templateCfg (Ref_Args (Template templatable)) of
        Inl err \<Rightarrow> Inl err
      | Inr cfg \<Rightarrow>
          (case newMetricsProvider w (Metrics_Provider cfg) templatable of
             Inl err \<Rightarrow> Inl err
           | Inr provider \<Rightarrow>
               Inr (newAnalyzer (''metrics-'' @ showNat i) (MetricsProvider_Type provider)
                      (Metrics_Query cfg) (metricsRunner cfg provider) (Metrics_Interval cfg)
                      (Metrics_FailureLimit cfg) (Metrics_SkipOnNoData cfg))))"

definition newAnalyzerForLog ::
  "'o World \<Rightarrow> Executor \<Rightarrow> nat \<Rightarrow> TemplatableAnalysisLog \<Rightarrow> AnalysisTemplateSpec
     \<Rightarrow> error + analyzer" where
  "newAnalyzerForLog w e i templatable templateCfg =
     (case getLogConfig w e templatable templateCfg (Ref_Args (Template templatable)) of
        Inl err \<Rightarrow> Inl err
      | Inr cfg \<Rightarrow>
          (case newLogProvider w (Log_Provider cfg) of
             Inl err \<Rightarrow> Inl err
           | Inr provider \<Rightarrow>
               Inr (newAnalyzer (''log-'' @ showNat i) (LogProvider_Type provider)
                      (Log_Query cfg) (LogProvider_Evaluate provider) (Log_Interval cfg)
                      (Log_FailureLimit cfg) (Log_SkipOnNoData cfg))))"

definition newAnalyzerForHTTP ::
  "'o World \<Rightarrow> Executor \<Rightarrow> nat \<Rightarrow> TemplatableAnalysisHTTP \<Rightarrow> AnalysisTemplateSpec
     \<Rightarrow> error + analyzer" where
  "newAnalyzerForHTTP w e i templatable templateCfg =
     (case getHTTPConfig w e templatable templateCfg (Ref_Args (Template templatable)) of
        Inl err \<Rightarrow> Inl err
      | Inr cfg \<Rightarrow>
          (let provider = httpprovider_NewProvider w (HTTP_Timeout cfg) in
           Inr (newAnalyzer (''http-'' @ showNat i) (HTTPProvider_Type provider) []
                  (\<lambda>now q. HTTPProvider_Run provider now cfg) (HTTP_Interval cfg)
                  (HTTP_FailureLimit cfg) (HTTP_SkipOnNoData cfg))))"

subsection \<open>The stage: Execute\<close>

text \<open>
  The loops \<^verbatim>\<open>for i := range options.Metrics\<close> (and \<^verbatim>\<open>Logs\<close>, \<^verbatim>\<open>Https\<close>): an analyzer is
  constructed for each entry in order, and the first construction error ends
  \<^verbatim>\<open>Execute\<close>. Constructing an analyzer does not depend on the analyzers already started,
  so the model constructs all of them before it looks at their results.
\<close>

fun spawnEach :: "(nat \<Rightarrow> 'a \<Rightarrow> error + analyzer) \<Rightarrow> nat \<Rightarrow> 'a list \<Rightarrow> error + analyzer list" where
  "spawnEach new i [] = Inr []"
| "spawnEach new i (x # xs) =
     (case new i x of
        Inl err \<Rightarrow> Inl err
      | Inr a \<Rightarrow>
          (case spawnEach new (Suc i) xs of
             Inl err \<Rightarrow> Inl err
           | Inr as \<Rightarrow> Inr (a # as)))"

definition spawnAnalyzers ::
  "'o World \<Rightarrow> Executor \<Rightarrow> AnalysisStageOptions \<Rightarrow> AnalysisTemplateSpec
     \<Rightarrow> error + analyzer list" where
  "spawnAnalyzers w e options templateCfg =
     (case spawnEach (\<lambda>i m. newAnalyzerForMetrics w e i m templateCfg) 0
             (Options_Metrics options) of
        Inl err \<Rightarrow> Inl err
      | Inr ms \<Rightarrow>
          (case spawnEach (\<lambda>i l. newAnalyzerForLog w e i l templateCfg) 0
                  (Options_Logs options) of
             Inl err \<Rightarrow> Inl err
           | Inr ls \<Rightarrow>
               (case spawnEach (\<lambda>i h. newAnalyzerForHTTP w e i h templateCfg) 0
                       (Options_Https options) of
                  Inl err \<Rightarrow> Inl err
                | Inr hs \<Rightarrow> Inr (ms @ ls @ hs))))"

text \<open>
  \<^verbatim>\<open>eg.Wait()\<close>: nil when every goroutine returned nil, else the first error that was
  returned. Which one is first depends on the schedule; here it is the first in the
  list.
\<close>

fun egWait :: "liberr option list \<Rightarrow> liberr option" where
  "egWait [] = None"
| "egWait (None # rs) = egWait rs"
| "egWait (Some err # rs) = Some err"

text \<open>
  What a run of \<^verbatim>\<open>Execute\<close> leaves behind: the status it returns, the timeout it gave to
  \<^verbatim>\<open>context.WithTimeout\<close>, the arguments of the \<^verbatim>\<open>SetStageMetadata\<close> call made by the
  deferred \<^verbatim>\<open>saveElapsedTime\<close>, whether \<^verbatim>\<open>DetermineStageStatus\<close> was called, and the start
  time put into the analysis result store.
\<close>

record Outcome =
  returned :: "StageStatus exec"
  deadline :: "duration option"
  savedMetadata :: "(string \<times> (string \<rightharpoonup> string)) option"
  determined :: bool
  putAnalysisResult :: "int option"

text \<open>The returns before \<^verbatim>\<open>defer e.saveElapsedTime(ctx)\<close> is reached.\<close>

definition earlyFailure :: Outcome where
  "earlyFailure =
     \<lparr>returned = Returns STAGE_FAILURE, deadline = None, savedMetadata = None,
      determined = False, putAnalysisResult = None\<rparr>"

definition Execute :: "'o World \<Rightarrow> Executor \<Rightarrow> Outcome" where
  "Execute w e0 =
     (let e = e0\<lparr>startTime := timeNow w\<rparr> in
      case StageConfig_AnalysisStageOptions e of
        None \<Rightarrow> earlyFailure
      | Some options \<Rightarrow>
          (case runningDSP_Get w of
             Inl err \<Rightarrow> earlyFailure
           | Inr ds \<Rightarrow>
               (let e = e\<lparr>repoDir := RepoDir ds, config := DeploymentConfig ds\<rparr> in
                case (case loadAnalysisTemplate w (repoDir e) of
                        TemplateErrNotFound \<Rightarrow> Some emptyTemplateSpec
                      | TemplateErr err \<Rightarrow> None
                      | TemplateLoaded t \<Rightarrow> Some t) of
                  None \<Rightarrow> earlyFailure
                | Some templateCfg \<Rightarrow>
                    (let timeout = Options_Duration options;
                         e = e\<lparr>previousElapsedTime := retrievePreviousElapsedTime w e\<rparr>;
                         timeout =
                           (if 0 < sint (previousElapsedTime e)
                            then timeout - previousElapsedTime e else timeout);
                         finish = (\<lambda>st det put.
                           \<lparr>returned = st, deadline = Some timeout,
                            savedMetadata = Some (saveElapsedTime w e),
                            determined = det, putAnalysisResult = put\<rparr>)
                     in case spawnAnalyzers w e options templateCfg of
                          Inl NilDereference \<Rightarrow> finish (Panics NilDereference) False None
                        | Inl err \<Rightarrow> finish (Returns STAGE_FAILURE) False None
                        | Inr analyzers \<Rightarrow>
                            (case egWait (map (runAnalyzer w) analyzers) of
                               Some err \<Rightarrow> finish (Returns STAGE_FAILURE) False None
                             | None \<Rightarrow>
                                 (let status = determineStageStatus w (stopSignal w)
                                                 (Stage_Status e) STAGE_SUCCESS
                                  in if status \<noteq> STAGE_SUCCESS
                                     then finish (Returns status) True None
                                     else finish (Returns status) True
                                            (Some (startTime e))))))))"

text \<open>
  Two names for stating properties of \<^verbatim>\<open>Execute\<close>: the template document it works with
  (the loaded one, the empty one when the file is not found, none on any other error),
  and the executor as the assignments of \<^verbatim>\<open>Execute\<close> have left it when the analyzers
  are constructed.
\<close>

definition loadedTemplate :: "'o World \<Rightarrow> DeploySource \<Rightarrow> AnalysisTemplateSpec option" where
  "loadedTemplate w ds =
     (case loadAnalysisTemplate w (RepoDir ds) of
        TemplateErrNotFound \<Rightarrow> Some emptyTemplateSpec
      | TemplateErr err \<Rightarrow> None
      | TemplateLoaded t \<Rightarrow> Some t)"

definition prepared :: "'o World \<Rightarrow> Executor \<Rightarrow> DeploySource \<Rightarrow> Executor" where
  "prepared w e ds =
     e\<lparr>startTime := timeNow w, repoDir := RepoDir ds, config := DeploymentConfig ds,
       previousElapsedTime := retrievePreviousElapsedTime w e\<rparr>"

text \<open>
  The outcome of a run that has reached \<^verbatim>\<open>defer e.saveElapsedTime(ctx)\<close>, in terms of
  the executor \<^verbatim>\<open>Execute\<close> was called on: the deadline and the saved metadata are the
  same on every later exit.
\<close>

definition finished ::
  "'o World \<Rightarrow> Executor \<Rightarrow> AnalysisStageOptions \<Rightarrow> StageStatus exec \<Rightarrow> bool \<Rightarrow> int option
     \<Rightarrow> Outcome" where
  "finished w e options st det put =
     \<lparr>returned = st,
      deadline = Some (if 0 < sint (retrievePreviousElapsedTime w e)
                       then Options_Duration options - retrievePreviousElapsedTime w e
                       else Options_Duration options),
      savedMetadata = Some (Stage_Id e,
                        [elapsedTimeKey \<mapsto>
                           durationString w (timeSince w + retrievePreviousElapsedTime w e)]),
      determined = det, putAnalysisResult = put\<rparr>"

subsection \<open>The dynamic metrics analyzer\<close>

type_synonym dynamicMetricsStrategy = string

definition strategyCanaryWithBaseline :: dynamicMetricsStrategy where
  "strategyCanaryWithBaseline = ''CANARY_WITH_BASELINE''"

definition strategyCanaryWithPrimary :: dynamicMetricsStrategy where
  "strategyCanaryWithPrimary = ''CANARY_WITH_PRIMARY''"

definition strategyPrevious :: dynamicMetricsStrategy where
  "strategyPrevious = ''PREVIOUS''"

record dynamicMetricsAnalyzer =
  strategy :: dynamicMetricsStrategy
  cfg :: AnalysisMetrics
  primaryArgs :: "string \<rightharpoonup> string"
  canaryArgs :: "string \<rightharpoonup> string"
  baselineArgs :: "string \<rightharpoonup> string"

definition newDynamicMetricsAnalyzer ::
  "dynamicMetricsStrategy \<Rightarrow> AnalysisDynamicMetrics \<Rightarrow> AnalysisTemplateSpec
     \<Rightarrow> error + dynamicMetricsAnalyzer" where
  "newDynamicMetricsAnalyzer strat templateRef templates =
     (case Spec_Metrics templates (Dynamic_Template templateRef) of
        None \<Rightarrow> Inl (DynamicTemplateNotFound (Dynamic_Template templateRef))
      | Some c \<Rightarrow>
          Inr \<lparr>strategy = strat, cfg = c,
               primaryArgs = Dynamic_PrimaryArgs templateRef,
               canaryArgs = Dynamic_CanaryArgs templateRef,
               baselineArgs = Dynamic_BaselineArgs templateRef\<rparr>)"

text \<open>
  \<^verbatim>\<open>run\<close>: the \<^verbatim>\<open>select\<close> loop over the events that arrive, a tick of the ticker or the
  end of the context. Every case of the \<^verbatim>\<open>switch\<close> on the strategy has an empty body, and
  the analyzer holds no provider to query. \<^verbatim>\<open>time.NewTicker\<close> panics on an interval that
  is not positive.
\<close>

datatype event = TickerC | CtxDone

fun dynamic_loop :: "dynamicMetricsAnalyzer \<Rightarrow> event list \<Rightarrow> error option exec" where
  "dynamic_loop d [] = Blocks"
| "dynamic_loop d (TickerC # evs) =
     (if strategy d = strategyPrevious then dynamic_loop d evs
      else if strategy d = strategyCanaryWithBaseline then dynamic_loop d evs
      else if strategy d = strategyCanaryWithPrimary then dynamic_loop d evs
      else dynamic_loop d evs)"
| "dynamic_loop d (CtxDone # evs) = Returns None"

definition dynamic_run :: "dynamicMetricsAnalyzer \<Rightarrow> event list \<Rightarrow> error option exec" where
  "dynamic_run d evs =
     (if sint (Metrics_Interval (cfg d)) \<le> 0 then Panics NonPositiveInterval
      else dynamic_loop d evs)"

subsection \<open>The analyzer runner and the metrics provider, from the spec\<close>

text \<open>
  Modelled from the spec: the method \<^verbatim>\<open>run\<close> of \<^verbatim>\<open>analyzer\<close> (file \<^verbatim>\<open>analyzer.go\<close>, not
  among the sources). The spec, section 4.3: on a tick the runner is invoked and its
  outcome classified.
  \<^item> "\<^verbatim>\<open>err\<close> is the no-data sentinel and \<^verbatim>\<open>skipOnNoData\<close> is true: treat as benign, reset
    consecutive failures, continue."
  \<^item> "\<^verbatim>\<open>err\<close> is any other value, or \<^verbatim>\<open>ok=false\<close>: increment consecutive failures [...].
    If \<^verbatim>\<open>consecutiveFailures > failureLimit\<close>, return an analyzer error terminating the
    stage."
  \<^item> "\<^verbatim>\<open>ok=true\<close>: reset consecutive failures."
  "On context cancellation or deadline: return without error."
\<close>

definition tickFailed :: "analyzer \<Rightarrow> outcome \<Rightarrow> bool" where
  "tickFailed a out =
     (case out of (ok, err) \<Rightarrow>
        \<not> (err = Some ErrNoDataFound \<and> skipOnNoData a) \<and> (err \<noteq> None \<or> \<not> ok))"

definition analyzer_tick :: "analyzer \<Rightarrow> outcome \<Rightarrow> error + analyzer" where
  "analyzer_tick a out =
     (case out of (ok, err) \<Rightarrow>
        if err = Some ErrNoDataFound \<and> skipOnNoData a
        then Inr (a\<lparr>consecutiveFailures := 0\<rparr>)
        else if err \<noteq> None \<or> \<not> ok
        then (let a' = a\<lparr>consecutiveFailures := consecutiveFailures a + 1\<rparr>
              in if failureLimit a' < consecutiveFailures a'
                 then Inl (FailureLimitExceeded (analyzer_id a') (failureLimit a'))
                 else Inr a')
        else Inr (a\<lparr>consecutiveFailures := 0\<rparr>))"

text \<open>
  The loop, over the times at which the ticker fires before the context is done: the
  error the analyzer returns, if any, and the number of ticks it has processed.
\<close>

fun analyzer_run :: "analyzer \<Rightarrow> int list \<Rightarrow> error option \<times> nat" where
  "analyzer_run a [] = (None, 0)"
| "analyzer_run a (t # ts) =
     (case analyzer_tick a (runner a t (query a)) of
        Inl err \<Rightarrow> (Some err, 1)
      | Inr a' \<Rightarrow> (case analyzer_run a' ts of (r, n) \<Rightarrow> (r, Suc n)))"

text \<open>
  Modelled from the spec: the method \<^verbatim>\<open>Evaluate\<close> of a metrics provider (the provider
  packages are not among the sources). The spec, section 4.1: it "runs the query over
  the range and returns whether every returned point lies within \<^verbatim>\<open>expected\<close>. A provider
  returning no points with no error signals 'no data' via a sentinel error kind".
  \<open>backend\<close> is the query against the monitoring system; \<^verbatim>\<open>expected\<close> is
  \<^verbatim>\<open>{ min?, max? }\<close>. Values are real numbers: a \<^verbatim>\<open>float64\<close> that is not a number is not
  modelled.
\<close>

definition inRange :: "AnalysisExpected \<Rightarrow> real \<Rightarrow> bool" where
  "inRange ex v =
     ((case Expected_Min ex of None \<Rightarrow> True | Some m \<Rightarrow> m \<le> v) \<and>
      (case Expected_Max ex of None \<Rightarrow> True | Some M \<Rightarrow> v \<le> M))"

definition specEvaluate ::
  "(string \<Rightarrow> QueryRange \<Rightarrow> liberr + DataPoint list) \<Rightarrow> string \<Rightarrow> QueryRange
     \<Rightarrow> AnalysisExpected \<Rightarrow> outcome" where
  "specEvaluate backend q r ex =
     (case backend q r of
        Inl err \<Rightarrow> (False, Some (ErrOther err))
      | Inr points \<Rightarrow>
          if points = [] then (False, Some ErrNoDataFound)
          else (list_all (\<lambda>p. inRange ex (Point_Value p)) points, None))"

text \<open>A tick succeeds when the runner reports \<^verbatim>\<open>ok=true\<close> and no error.\<close>

definition tickSucceeded :: "outcome \<Rightarrow> bool" where
  "tickSucceeded out = (out = (True, None))"

subsection \<open>An example stage\<close>

text \<open>
  Concrete data on which the theorems below are instantiated: a Kubernetes application
  without a namespace, a stage of 30 minutes that was interrupted after 20 and whose
  only check refers to the template \<^verbatim>\<open>http_error_rate\<close>. The example library serialises a
  template document as the query of that template and knows the one template text of
  the example; the other collaborators answer from small tables.
\<close>

definition exampleMetrics :: AnalysisMetrics where
  "exampleMetrics =
     \<lparr>Metrics_Provider = ''prometheus-dev'', Metrics_Query = ''job={{ .Args.job }}'',
      Metrics_Interval = 600000000000, Metrics_FailureLimit = 1,
      Metrics_SkipOnNoData = False,
      Metrics_Expected = \<lparr>Expected_Min = None, Expected_Max = Some (1 / 10)\<rparr>\<rparr>"

definition exampleTemplates :: AnalysisTemplateSpec where
  "exampleTemplates =
     \<lparr>Spec_Metrics = [''http_error_rate'' \<mapsto> exampleMetrics], Spec_Logs = Map.empty,
      Spec_HTTPs = Map.empty\<rparr>"

definition exampleLib :: "unit goLib" where
  "exampleLib =
     \<lparr>jsonMarshal = (\<lambda>doc. case Spec_Metrics doc ''http_error_rate'' of
                               None \<Rightarrow> Inr []
                             | Some m \<Rightarrow> Inr (Metrics_Query m)),
      templateParse = (\<lambda>s. if s = ''job={{ .Args.job }}''
                            then Inr [TextNode ''job='', FieldNode [''Args'', ''job'']]
                            else if s = ''{{ .App.Name }}/{{ .App.Env }}/{{ .K8s.Namespace }}/{{ .Args.job }}''
                            then Inr [FieldNode [''App'', ''Name''], TextNode ''/'',
                                      FieldNode [''App'', ''Env''], TextNode ''/'',
                                      FieldNode [''K8s'', ''Namespace''], TextNode ''/'',
                                      FieldNode [''Args'', ''job'']]
                            else if s = ''version={{ .App.Version }}''
                            then Inr [TextNode ''version='', FieldNode [''App'', ''Version'']]
                            else if s = [] then Inr []
                            else Inl ''unknown template text''),
      execOther = (\<lambda>x a. Inr []),
      fmtSprint = (\<lambda>a v. []),
      jsonUnmarshal = (\<lambda>b. if b = [] then Inr emptyTemplateSpec
                            else Inr \<lparr>Spec_Metrics =
                                        [''http_error_rate'' \<mapsto> exampleMetrics\<lparr>Metrics_Query := b\<rparr>],
                                      Spec_Logs = Map.empty, Spec_HTTPs = Map.empty\<rparr>)\<rparr>"

text \<open>A template document whose one query prints every field of the template arguments.\<close>

definition contextTemplates :: AnalysisTemplateSpec where
  "contextTemplates =
     \<lparr>Spec_Metrics =
        [''http_error_rate'' \<mapsto>
           exampleMetrics
             \<lparr>Metrics_Query := ''{{ .App.Name }}/{{ .App.Env }}/{{ .K8s.Namespace }}/{{ .Args.job }}''\<rparr>],
      Spec_Logs = Map.empty, Spec_HTTPs = Map.empty\<rparr>"

text \<open>The document that the example library decodes from the output \<open>q\<close> of a template.\<close>

definition renderedAs :: "string \<Rightarrow> AnalysisTemplateSpec" where
  "renderedAs q =
     \<lparr>Spec_Metrics = [''http_error_rate'' \<mapsto> exampleMetrics\<lparr>Metrics_Query := q\<rparr>],
      Spec_Logs = Map.empty, Spec_HTTPs = Map.empty\<rparr>"

definition exampleProvider :: MetricsProvider where
  "exampleProvider =
     \<lparr>MetricsProvider_Type = ''Prometheus'',
      MetricsProvider_Evaluate = (\<lambda>q r ex. (True, None))\<rparr>"

definition exampleConfig :: Config where
  "exampleConfig =
     \<lparr>Config_Kind = KindKubernetesApp,
      Config_KubernetesDeploymentSpec = Some \<lparr>Input_Namespace = []\<rparr>\<rparr>"

definition exampleDS :: DeploySource where
  "exampleDS = \<lparr>RepoDir = ''/repo'', DeploymentConfig = Some exampleConfig\<rparr>"

definition exampleWorld :: "unit World" where
  "exampleWorld =
     \<lparr>lib = exampleLib,
      validateMetrics = (\<lambda>c. None),
      getAnalysisProvider =
        [''prometheus-dev'' \<mapsto>
           \<lparr>AnalysisProvider_Name = ''prometheus-dev'', AnalysisProvider_Type = ''PROMETHEUS''\<rparr>],
      metricsfactory_NewProvider = (\<lambda>t c. Inr exampleProvider),
      logfactory_NewProvider = (\<lambda>c. Inl ''no log provider''),
      httpprovider_NewProvider =
        (\<lambda>d. \<lparr>HTTPProvider_Type = ''HTTP'', HTTPProvider_Run = (\<lambda>now c. (True, None))\<rparr>),
      runningDSP_Get = Inr exampleDS,
      loadAnalysisTemplate = (\<lambda>dir. TemplateLoaded exampleTemplates),
      getStageMetadata = [''stage-1'' \<mapsto> [''elapsedTime'' \<mapsto> ''20m0s'']],
      parseDuration = (\<lambda>s. if s = ''20m0s'' then Some 1200000000000
                            else if s = ''-1m0s'' then Some (- 60000000000)
                            else None),
      durationString = (\<lambda>d. if d = 1500000000000 then ''25m0s''
                             else if d = 300000000000 then ''5m0s''
                             else if d = 240000000000 then ''4m0s''
                             else ''other''),
      timeNow = 1630000000,
      timeSince = 300000000000,
      runAnalyzer = (\<lambda>a. None),
      stopSignal = StopSignalNone,
      determineStageStatus =
        (\<lambda>sig original got.
           case sig of
             StopSignalNone \<Rightarrow> got
           | StopSignalTerminate \<Rightarrow> original
           | StopSignalCancel \<Rightarrow> STAGE_CANCELLED
           | StopSignalTimeout \<Rightarrow> STAGE_FAILURE)\<rparr>"

definition exampleCheck :: TemplatableAnalysisMetrics where
  "exampleCheck =
     \<lparr>Inline = exampleMetrics\<lparr>Metrics_Query := []\<rparr>,
      Template = \<lparr>Ref_Name = ''http_error_rate'', Ref_Args = [''job'' \<mapsto> ''foo'']\<rparr>\<rparr>"

text \<open>Checks that name a template the example document does not hold for their kind.\<close>

definition missingCheck :: TemplatableAnalysisMetrics where
  "missingCheck =
     \<lparr>Inline = exampleMetrics\<lparr>Metrics_Query := []\<rparr>,
      Template = \<lparr>Ref_Name = ''latency'', Ref_Args = [''job'' \<mapsto> ''foo'']\<rparr>\<rparr>"

definition missingLogCheck :: TemplatableAnalysisLog where
  "missingLogCheck =
     \<lparr>Inline = \<lparr>Log_Provider = ''stackdriver-dev'', Log_Query = [], Log_Interval = 600000000000,
                  Log_FailureLimit = 1, Log_SkipOnNoData = False\<rparr>,
      Template = \<lparr>Ref_Name = ''http_error_rate'', Ref_Args = [''job'' \<mapsto> ''foo'']\<rparr>\<rparr>"

definition missingHTTPCheck :: TemplatableAnalysisHTTP where
  "missingHTTPCheck =
     \<lparr>Inline = \<lparr>HTTP_URL = [], HTTP_Interval = 600000000000, HTTP_FailureLimit = 1,
                  HTTP_SkipOnNoData = False, HTTP_Timeout = 30000000000\<rparr>,
      Template = \<lparr>Ref_Name = ''http_error_rate'', Ref_Args = [''job'' \<mapsto> ''foo'']\<rparr>\<rparr>"

definition exampleOptions :: AnalysisStageOptions where
  "exampleOptions =
     \<lparr>Options_Duration = 1800000000000, Options_Metrics = [exampleCheck],
      Options_Logs = [], Options_Https = []\<rparr>"

definition exampleExecutor :: Executor where
  "exampleExecutor =
     \<lparr>Application_Name = ''demo'', Stage_Id = ''stage-1'', Stage_Status = STAGE_RUNNING,
      StageConfig_AnalysisStageOptions = Some exampleOptions, repoDir = [], config = None,
      startTime = 0, previousElapsedTime = 0\<rparr>"

section \<open>Properties\<close>

subsection \<open>Execute, phase by phase\<close>

lemma retrieve_frame:
  "retrievePreviousElapsedTime w (e\<lparr>previousElapsedTime := p\<rparr>) = retrievePreviousElapsedTime w e"
  "retrievePreviousElapsedTime w (e\<lparr>startTime := t\<rparr>) = retrievePreviousElapsedTime w e"
  "retrievePreviousElapsedTime w (e\<lparr>repoDir := r\<rparr>) = retrievePreviousElapsedTime w e"
  "retrievePreviousElapsedTime w (e\<lparr>config := c\<rparr>) = retrievePreviousElapsedTime w e"
  by (simp_all add: retrievePreviousElapsedTime_def)

lemma Execute_unfold:
  assumes "StageConfig_AnalysisStageOptions e = Some options"
    and "runningDSP_Get w = Inr ds"
    and "loadedTemplate w ds = Some templateCfg"
  shows "Execute w e =
     (case spawnAnalyzers w (prepared w e ds) options templateCfg of
        Inl err \<Rightarrow>
          finished w e options
            (if err = NilDereference then Panics NilDereference else Returns STAGE_FAILURE)
            False None
      | Inr analyzers \<Rightarrow>
          (case egWait (map (runAnalyzer w) analyzers) of
             Some err \<Rightarrow> finished w e options (Returns STAGE_FAILURE) False None
           | None \<Rightarrow>
               (let status = determineStageStatus w (stopSignal w) (Stage_Status e) STAGE_SUCCESS
                in finished w e options (Returns status) True
                     (if status = STAGE_SUCCESS then Some (timeNow w) else None))))"
  using assms
  by (cases "loadAnalysisTemplate w (RepoDir ds)")
     (simp_all add: Execute_def Let_def retrieve_frame saveElapsedTime_def prepared_def
        loadedTemplate_def finished_def
        split: sum.split error.split option.split)

lemma Execute_early:
  assumes "StageConfig_AnalysisStageOptions e = None \<or> (\<exists>err. runningDSP_Get w = Inl err) \<or>
     (\<exists>ds. runningDSP_Get w = Inr ds \<and> loadedTemplate w ds = None)"
  shows "Execute w e = earlyFailure"
proof -
  consider "StageConfig_AnalysisStageOptions e = None"
    | options err where "StageConfig_AnalysisStageOptions e = Some options"
        "runningDSP_Get w = Inl err"
    | options ds where "StageConfig_AnalysisStageOptions e = Some options"
        "runningDSP_Get w = Inr ds" "loadedTemplate w ds = None"
    using assms by (cases "StageConfig_AnalysisStageOptions e") auto
  then show ?thesis
  proof cases
    case 1
    then show ?thesis by (simp add: Execute_def)
  next
    case 2
    then show ?thesis by (simp add: Execute_def)
  next
    case 3
    then show ?thesis
      by (cases "loadAnalysisTemplate w (RepoDir ds)")
         (simp_all add: Execute_def loadedTemplate_def)
  qed
qed

lemma egWait_None_iff: "egWait rs = None \<longleftrightarrow> (\<forall>r\<in>set rs. r = None)"
  by (induction rs rule: egWait.induct) auto


lemmas example_defs = exampleWorld_def exampleExecutor_def exampleOptions_def exampleCheck_def
  exampleDS_def exampleConfig_def exampleProvider_def exampleLib_def exampleTemplates_def
  exampleMetrics_def

lemma Execute_determined:
  "determined (Execute w e) \<longleftrightarrow>
     (\<exists>options ds templateCfg analyzers.
        StageConfig_AnalysisStageOptions e = Some options \<and> runningDSP_Get w = Inr ds \<and>
        loadedTemplate w ds = Some templateCfg \<and>
        spawnAnalyzers w (prepared w e ds) options templateCfg = Inr analyzers \<and>
        (\<forall>a\<in>set analyzers. runAnalyzer w a = None))"
proof (cases "StageConfig_AnalysisStageOptions e")
  case None
  then show ?thesis
    using Execute_early[of e w] by (simp add: earlyFailure_def)
next
  case (Some options)
  note opts = this
  show ?thesis
  proof (cases "runningDSP_Get w")
    case (Inl err)
    then show ?thesis
      using Execute_early[of e w] by (simp add: earlyFailure_def)
  next
    case (Inr ds)
    note dsp = this
    show ?thesis
    proof (cases "loadedTemplate w ds")
      case None
      then show ?thesis
        using Execute_early[of e w] dsp by (simp add: earlyFailure_def)
    next
      case (Some templateCfg)
      show ?thesis
      proof (cases "spawnAnalyzers w (prepared w e ds) options templateCfg")
        case (Inl err)
        then show ?thesis
          using opts dsp Some
          by (simp add: Execute_unfold[OF opts dsp Some] finished_def)
      next
        case (Inr analyzers)
        then show ?thesis
          using opts dsp Some egWait_None_iff[of "map (runAnalyzer w) analyzers"]
          by (cases "egWait (map (runAnalyzer w) analyzers)")
             (auto simp add: Execute_unfold[OF opts dsp Some] finished_def Let_def)
      qed
    qed
  qed
qed

lemma example_spawn:
  "\<exists>a. spawnAnalyzers (exampleWorld\<lparr>runAnalyzer := r, stopSignal := sg\<rparr>)
          (prepared (exampleWorld\<lparr>runAnalyzer := r, stopSignal := sg\<rparr>) exampleExecutor exampleDS)
          exampleOptions exampleTemplates = Inr [a] \<and> analyzer_id a = ''metrics-0''"
  by (simp add: spawnAnalyzers_def prepared_def newAnalyzerForMetrics_def getMetricsConfig_def
        render_def renderArgs_def renderTemplate_def newMetricsProvider_def newAnalyzer_def
        metricsRunner_def example_defs Let_def showNat.simps)

lemma example_reach:
  "StageConfig_AnalysisStageOptions exampleExecutor = Some exampleOptions \<and>
   runningDSP_Get (exampleWorld\<lparr>runAnalyzer := r, stopSignal := sg\<rparr>) = Inr exampleDS \<and>
   loadedTemplate (exampleWorld\<lparr>runAnalyzer := r, stopSignal := sg\<rparr>) exampleDS =
     Some exampleTemplates"
  by (simp add: exampleExecutor_def exampleWorld_def loadedTemplate_def)




subsection \<open>The previous elapsed time\<close>

text \<open>
  C9. At the start of a stage the previous elapsed time is decoded from the stage
  metadata under the key \<^verbatim>\<open>elapsedTime\<close>. It is 0 when the stage has no metadata, when
  the metadata has no such key, and when the stored string does not parse as a
  duration; otherwise it is the parsed duration. A run of \<^verbatim>\<open>Execute\<close> that gets as far as
  installing a deadline uses exactly this decoded value: the deadline is the configured
  duration less the decoded value when that is positive and the configured duration
  otherwise, and the metadata saved at exit holds, under the same key, the wall time of
  the run plus the decoded value. In particular the full configured duration is the
  deadline whenever the decoded value is 0.
\<close>

theorem previous_elapsed_time_decoded:
  "(getStageMetadata w (Stage_Id e) = None \<longrightarrow> retrievePreviousElapsedTime w e = 0) \<and>
   (\<forall>metadata. getStageMetadata w (Stage_Id e) = Some metadata \<and> metadata ''elapsedTime'' = None
      \<longrightarrow> retrievePreviousElapsedTime w e = 0) \<and>
   (\<forall>metadata s. getStageMetadata w (Stage_Id e) = Some metadata \<and>
        metadata ''elapsedTime'' = Some s \<and> parseDuration w s = None
      \<longrightarrow> retrievePreviousElapsedTime w e = 0) \<and>
   (\<forall>metadata s d. getStageMetadata w (Stage_Id e) = Some metadata \<and>
        metadata ''elapsedTime'' = Some s \<and> parseDuration w s = Some d
      \<longrightarrow> retrievePreviousElapsedTime w e = d) \<and>
   (\<forall>options ds templateCfg. StageConfig_AnalysisStageOptions e = Some options \<and>
        runningDSP_Get w = Inr ds \<and> loadedTemplate w ds = Some templateCfg
      \<longrightarrow> deadline (Execute w e) =
            Some (if 0 < sint (retrievePreviousElapsedTime w e)
                  then Options_Duration options - retrievePreviousElapsedTime w e
                  else Options_Duration options) \<and>
          savedMetadata (Execute w e) =
            Some (Stage_Id e,
                  [''elapsedTime'' \<mapsto>
                     durationString w (timeSince w + retrievePreviousElapsedTime w e)]) \<and>
          (retrievePreviousElapsedTime w e = 0
             \<longrightarrow> deadline (Execute w e) = Some (Options_Duration options)))"
proof -
  have ex: "deadline (Execute w e) =
        Some (if 0 < sint (retrievePreviousElapsedTime w e)
              then Options_Duration options - retrievePreviousElapsedTime w e
              else Options_Duration options) \<and>
      savedMetadata (Execute w e) =
        Some (Stage_Id e,
              [''elapsedTime'' \<mapsto>
                 durationString w (timeSince w + retrievePreviousElapsedTime w e)])"
    if "StageConfig_AnalysisStageOptions e = Some options" "runningDSP_Get w = Inr ds"
      "loadedTemplate w ds = Some templateCfg"
    for options ds templateCfg
    by (simp add: Execute_unfold[OF that] finished_def Let_def elapsedTimeKey_def
          split: sum.split option.split)
  have dec: "(getStageMetadata w (Stage_Id e) = None \<longrightarrow> retrievePreviousElapsedTime w e = 0) \<and>
   (\<forall>metadata. getStageMetadata w (Stage_Id e) = Some metadata \<and> metadata ''elapsedTime'' = None
      \<longrightarrow> retrievePreviousElapsedTime w e = 0) \<and>
   (\<forall>metadata s. getStageMetadata w (Stage_Id e) = Some metadata \<and>
        metadata ''elapsedTime'' = Some s \<and> parseDuration w s = None
      \<longrightarrow> retrievePreviousElapsedTime w e = 0) \<and>
   (\<forall>metadata s d. getStageMetadata w (Stage_Id e) = Some metadata \<and>
        metadata ''elapsedTime'' = Some s \<and> parseDuration w s = Some d
      \<longrightarrow> retrievePreviousElapsedTime w e = d)"
    by (auto simp add: retrievePreviousElapsedTime_def elapsedTimeKey_def)
  have zero: "deadline (Execute w e) = Some (Options_Duration options)"
    if "StageConfig_AnalysisStageOptions e = Some options" "runningDSP_Get w = Inr ds"
      "loadedTemplate w ds = Some templateCfg" "retrievePreviousElapsedTime w e = 0"
    for options ds templateCfg
    using ex[OF that(1-3)] that(4) by simp
  show ?thesis
    using ex zero dec by blast
qed

theorem previous_elapsed_time_decoded_witness:
  "deadline (Execute exampleWorld exampleExecutor) = Some 600000000000 \<and>
   savedMetadata (Execute exampleWorld exampleExecutor) =
     Some (''stage-1'', [''elapsedTime'' \<mapsto> ''25m0s'']) \<and>
   retrievePreviousElapsedTime exampleWorld exampleExecutor = 1200000000000 \<and>
   deadline (Execute (exampleWorld\<lparr>getStageMetadata := Map.empty\<rparr>) exampleExecutor) =
     Some 1800000000000 \<and>
   savedMetadata (Execute (exampleWorld\<lparr>getStageMetadata := Map.empty\<rparr>) exampleExecutor) =
     Some (''stage-1'', [''elapsedTime'' \<mapsto> ''5m0s'']) \<and>
   deadline (Execute (exampleWorld\<lparr>getStageMetadata := [''stage-1'' \<mapsto> Map.empty]\<rparr>)
       exampleExecutor) = Some 1800000000000 \<and>
   deadline (Execute
       (exampleWorld\<lparr>getStageMetadata := [''stage-1'' \<mapsto> [''elapsedTime'' \<mapsto> ''soon'']]\<rparr>)
       exampleExecutor) = Some 1800000000000"
proof -
  let ?w1 = "exampleWorld\<lparr>getStageMetadata := Map.empty\<rparr>"
  let ?w2 = "exampleWorld\<lparr>getStageMetadata := [''stage-1'' \<mapsto> Map.empty]\<rparr>"
  let ?w3 = "exampleWorld\<lparr>getStageMetadata := [''stage-1'' \<mapsto> [''elapsedTime'' \<mapsto> ''soon'']]\<rparr>"
  have sid: "Stage_Id exampleExecutor = ''stage-1''"
    by (simp add: exampleExecutor_def)
  have opts: "StageConfig_AnalysisStageOptions exampleExecutor = Some exampleOptions"
    by (simp add: exampleExecutor_def)
  have reach: "runningDSP_Get w = Inr exampleDS \<and> loadedTemplate w exampleDS = Some exampleTemplates"
    if "w = exampleWorld\<lparr>getStageMetadata := m\<rparr>" for w :: "unit World" and m
    using that by (simp add: exampleWorld_def loadedTemplate_def)
  have D: "Options_Duration exampleOptions = 1800000000000"
    by (simp add: exampleOptions_def)
  have since: "timeSince (exampleWorld\<lparr>getStageMetadata := m\<rparr>) = 300000000000" for m
    by (simp add: exampleWorld_def)
  have str: "durationString (exampleWorld\<lparr>getStageMetadata := m\<rparr>) 1500000000000 = ''25m0s''"
    "durationString (exampleWorld\<lparr>getStageMetadata := m\<rparr>) 300000000000 = ''5m0s''" for m
    by (simp_all add: exampleWorld_def)
  have same: "exampleWorld = exampleWorld\<lparr>getStageMetadata := getStageMetadata exampleWorld\<rparr>"
    by simp
  have a1: "getStageMetadata ?w1 (Stage_Id exampleExecutor) = None"
    by simp
  have a2: "getStageMetadata ?w2 (Stage_Id exampleExecutor) = Some Map.empty \<and>
      (Map.empty :: string \<rightharpoonup> string) ''elapsedTime'' = None"
    by (simp add: sid)
  have a3: "getStageMetadata ?w3 (Stage_Id exampleExecutor) = Some [''elapsedTime'' \<mapsto> ''soon''] \<and>
      [''elapsedTime'' \<mapsto> ''soon''] ''elapsedTime'' = Some ''soon'' \<and>
      parseDuration ?w3 ''soon'' = None"
    by (simp add: sid exampleWorld_def)
  have a4: "getStageMetadata exampleWorld (Stage_Id exampleExecutor) =
        Some [''elapsedTime'' \<mapsto> ''20m0s''] \<and>
      [''elapsedTime'' \<mapsto> ''20m0s''] ''elapsedTime'' = Some ''20m0s'' \<and>
      parseDuration exampleWorld ''20m0s'' = Some 1200000000000"
    by (simp add: sid exampleWorld_def)
  note t1 = previous_elapsed_time_decoded[of ?w1 exampleExecutor]
  note t2 = previous_elapsed_time_decoded[of ?w2 exampleExecutor]
  note t3 = previous_elapsed_time_decoded[of ?w3 exampleExecutor]
  note t4 = previous_elapsed_time_decoded[of exampleWorld exampleExecutor]
  have r1: "retrievePreviousElapsedTime ?w1 exampleExecutor = 0"
    using t1 a1 by blast
  have r2: "retrievePreviousElapsedTime ?w2 exampleExecutor = 0"
    using t2 a2 by blast
  have r3: "retrievePreviousElapsedTime ?w3 exampleExecutor = 0"
    using t3 a3 by blast
  have r4: "retrievePreviousElapsedTime exampleWorld exampleExecutor = 1200000000000"
    using t4 a4 by blast
  have e4: "deadline (Execute exampleWorld exampleExecutor) =
        Some (if 0 < sint (retrievePreviousElapsedTime exampleWorld exampleExecutor)
              then Options_Duration exampleOptions -
                   retrievePreviousElapsedTime exampleWorld exampleExecutor
              else Options_Duration exampleOptions) \<and>
      savedMetadata (Execute exampleWorld exampleExecutor) =
        Some (Stage_Id exampleExecutor,
              [''elapsedTime'' \<mapsto>
                 durationString exampleWorld
                   (timeSince exampleWorld +
                    retrievePreviousElapsedTime exampleWorld exampleExecutor)])"
    using t4 opts reach[OF same] by blast
  have q4: "deadline (Execute exampleWorld exampleExecutor) = Some 600000000000 \<and>
      savedMetadata (Execute exampleWorld exampleExecutor) =
        Some (''stage-1'', [''elapsedTime'' \<mapsto> ''25m0s''])"
    using e4 since[of "getStageMetadata exampleWorld"] str[of "getStageMetadata exampleWorld"]
    by (simp add: r4 D sid del: fun_upd_apply)
  have e1: "deadline (Execute ?w1 exampleExecutor) =
        Some (if 0 < sint (retrievePreviousElapsedTime ?w1 exampleExecutor)
              then Options_Duration exampleOptions -
                   retrievePreviousElapsedTime ?w1 exampleExecutor
              else Options_Duration exampleOptions) \<and>
      savedMetadata (Execute ?w1 exampleExecutor) =
        Some (Stage_Id exampleExecutor,
              [''elapsedTime'' \<mapsto>
                 durationString ?w1
                   (timeSince ?w1 + retrievePreviousElapsedTime ?w1 exampleExecutor)])"
    using t1 opts reach[OF refl, of Map.empty] by blast
  have q1: "deadline (Execute ?w1 exampleExecutor) = Some 1800000000000 \<and>
      savedMetadata (Execute ?w1 exampleExecutor) =
        Some (''stage-1'', [''elapsedTime'' \<mapsto> ''5m0s''])"
    using e1 since[of Map.empty] str[of Map.empty]
    by (simp add: r1 D sid del: fun_upd_apply)
  have q2: "deadline (Execute ?w2 exampleExecutor) = Some 1800000000000"
    using t2 opts reach[OF refl, of "[''stage-1'' \<mapsto> Map.empty]"] r2 D by auto
  have q3: "deadline (Execute ?w3 exampleExecutor) = Some 1800000000000"
    using t3 opts reach[OF refl, of "[''stage-1'' \<mapsto> [''elapsedTime'' \<mapsto> ''soon'']]"] r3 D
    by auto
  show ?thesis using q4 r4 q1 q2 q3 by blast
qed

subsection \<open>An analyzer that fails\<close>

text \<open>
  C10. When the analyzers have been constructed and one of them returns an error,
  \<^verbatim>\<open>Execute\<close> returns \<^verbatim>\<open>STAGE_FAILURE\<close> whatever the stop signal is, without calling
  \<^verbatim>\<open>DetermineStageStatus\<close> and without storing an analysis result. When all of them
  return without error, \<^verbatim>\<open>DetermineStageStatus\<close> is called, its answer is the status
  returned, and the analysis result is stored exactly when that answer is
  \<^verbatim>\<open>STAGE_SUCCESS\<close>. On no other path through \<^verbatim>\<open>Execute\<close> is \<^verbatim>\<open>DetermineStageStatus\<close>
  called or an analysis result stored.
\<close>

theorem analyzer_error_is_stage_failure:
  "(\<forall>options ds templateCfg analyzers.
      StageConfig_AnalysisStageOptions e = Some options \<and> runningDSP_Get w = Inr ds \<and>
      loadedTemplate w ds = Some templateCfg \<and>
      spawnAnalyzers w (prepared w e ds) options templateCfg = Inr analyzers \<and>
      (\<exists>a\<in>set analyzers. runAnalyzer w a \<noteq> None)
      \<longrightarrow> returned (Execute w e) = Returns STAGE_FAILURE \<and> \<not> determined (Execute w e) \<and>
          putAnalysisResult (Execute w e) = None) \<and>
   (\<forall>options ds templateCfg analyzers.
      StageConfig_AnalysisStageOptions e = Some options \<and> runningDSP_Get w = Inr ds \<and>
      loadedTemplate w ds = Some templateCfg \<and>
      spawnAnalyzers w (prepared w e ds) options templateCfg = Inr analyzers \<and>
      (\<forall>a\<in>set analyzers. runAnalyzer w a = None)
      \<longrightarrow> determined (Execute w e) \<and>
          returned (Execute w e) =
            Returns (determineStageStatus w (stopSignal w) (Stage_Status e) STAGE_SUCCESS) \<and>
          putAnalysisResult (Execute w e) =
            (if determineStageStatus w (stopSignal w) (Stage_Status e) STAGE_SUCCESS = STAGE_SUCCESS
             then Some (timeNow w) else None)) \<and>
   (determined (Execute w e) \<longrightarrow>
      (\<exists>options ds templateCfg analyzers.
         StageConfig_AnalysisStageOptions e = Some options \<and> runningDSP_Get w = Inr ds \<and>
         loadedTemplate w ds = Some templateCfg \<and>
         spawnAnalyzers w (prepared w e ds) options templateCfg = Inr analyzers \<and>
         (\<forall>a\<in>set analyzers. runAnalyzer w a = None))) \<and>
   (putAnalysisResult (Execute w e) \<noteq> None \<longrightarrow> determined (Execute w e))"
proof -
  have failing: "returned (Execute w e) = Returns STAGE_FAILURE \<and> \<not> determined (Execute w e) \<and>
      putAnalysisResult (Execute w e) = None"
    if r: "StageConfig_AnalysisStageOptions e = Some options" "runningDSP_Get w = Inr ds"
      "loadedTemplate w ds = Some templateCfg"
      and s: "spawnAnalyzers w (prepared w e ds) options templateCfg = Inr analyzers"
      and f: "\<exists>a\<in>set analyzers. runAnalyzer w a \<noteq> None"
    for options ds templateCfg analyzers
  proof -
    from f obtain err where "egWait (map (runAnalyzer w) analyzers) = Some err"
      using egWait_None_iff[of "map (runAnalyzer w) analyzers"]
      by (cases "egWait (map (runAnalyzer w) analyzers)") auto
    then show ?thesis
      by (simp add: Execute_unfold[OF r] s finished_def)
  qed
  have passing: "determined (Execute w e) \<and>
      returned (Execute w e) =
        Returns (determineStageStatus w (stopSignal w) (Stage_Status e) STAGE_SUCCESS) \<and>
      putAnalysisResult (Execute w e) =
        (if determineStageStatus w (stopSignal w) (Stage_Status e) STAGE_SUCCESS = STAGE_SUCCESS
         then Some (timeNow w) else None)"
    if r: "StageConfig_AnalysisStageOptions e = Some options" "runningDSP_Get w = Inr ds"
      "loadedTemplate w ds = Some templateCfg"
      and s: "spawnAnalyzers w (prepared w e ds) options templateCfg = Inr analyzers"
      and f: "\<forall>a\<in>set analyzers. runAnalyzer w a = None"
    for options ds templateCfg analyzers
  proof -
    from f have "egWait (map (runAnalyzer w) analyzers) = None"
      by (simp add: egWait_None_iff)
    then show ?thesis
      by (simp add: Execute_unfold[OF r] s finished_def Let_def)
  qed
  have det: "\<exists>options ds templateCfg analyzers.
         StageConfig_AnalysisStageOptions e = Some options \<and> runningDSP_Get w = Inr ds \<and>
         loadedTemplate w ds = Some templateCfg \<and>
         spawnAnalyzers w (prepared w e ds) options templateCfg = Inr analyzers \<and>
         (\<forall>a\<in>set analyzers. runAnalyzer w a = None)"
    if "determined (Execute w e)"
    using that by (simp add: Execute_determined)
  have put: "determined (Execute w e)" if p: "putAnalysisResult (Execute w e) \<noteq> None"
  proof (rule ccontr)
    assume n: "\<not> determined (Execute w e)"
    show False
    proof (cases "StageConfig_AnalysisStageOptions e = None \<or> (\<exists>err. runningDSP_Get w = Inl err) \<or>
         (\<exists>ds. runningDSP_Get w = Inr ds \<and> loadedTemplate w ds = None)")
      case True
      then show False
        using p Execute_early[of e w] by (simp add: earlyFailure_def)
    next
      case False
      then obtain options ds templateCfg where
        r: "StageConfig_AnalysisStageOptions e = Some options" "runningDSP_Get w = Inr ds"
          "loadedTemplate w ds = Some templateCfg"
        by (cases "runningDSP_Get w") auto
      show False
        using p n
        by (simp add: Execute_unfold[OF r] finished_def Let_def
              split: sum.splits option.splits if_splits)
    qed
  qed
  show ?thesis
    using failing passing det put by blast
qed

theorem analyzer_error_is_stage_failure_witness:
  "returned (Execute (exampleWorld\<lparr>runAnalyzer := (\<lambda>a. Some ''failure limit exceeded''),
                                    stopSignal := StopSignalCancel\<rparr>) exampleExecutor) =
     Returns STAGE_FAILURE \<and>
   \<not> determined (Execute (exampleWorld\<lparr>runAnalyzer := (\<lambda>a. Some ''failure limit exceeded''),
                                        stopSignal := StopSignalCancel\<rparr>) exampleExecutor) \<and>
   putAnalysisResult (Execute (exampleWorld\<lparr>runAnalyzer := (\<lambda>a. Some ''failure limit exceeded''),
                                        stopSignal := StopSignalCancel\<rparr>) exampleExecutor) = None \<and>
   determined (Execute (exampleWorld\<lparr>runAnalyzer := (\<lambda>a. None),
                                      stopSignal := StopSignalCancel\<rparr>) exampleExecutor) \<and>
   returned (Execute (exampleWorld\<lparr>runAnalyzer := (\<lambda>a. None),
                                    stopSignal := StopSignalCancel\<rparr>) exampleExecutor) =
     Returns STAGE_CANCELLED \<and>
   putAnalysisResult (Execute (exampleWorld\<lparr>runAnalyzer := (\<lambda>a. None),
                                    stopSignal := StopSignalCancel\<rparr>) exampleExecutor) = None \<and>
   determined (Execute (exampleWorld\<lparr>runAnalyzer := (\<lambda>a. None),
                                      stopSignal := StopSignalNone\<rparr>) exampleExecutor) \<and>
   returned (Execute (exampleWorld\<lparr>runAnalyzer := (\<lambda>a. None),
                                    stopSignal := StopSignalNone\<rparr>) exampleExecutor) =
     Returns STAGE_SUCCESS \<and>
   putAnalysisResult (Execute (exampleWorld\<lparr>runAnalyzer := (\<lambda>a. None),
                                    stopSignal := StopSignalNone\<rparr>) exampleExecutor) =
     Some 1630000000"
proof -
  let ?wf = "exampleWorld\<lparr>runAnalyzer := (\<lambda>a. Some ''failure limit exceeded''),
                           stopSignal := StopSignalCancel\<rparr>"
  let ?wc = "exampleWorld\<lparr>runAnalyzer := (\<lambda>a. None), stopSignal := StopSignalCancel\<rparr>"
  let ?wn = "exampleWorld\<lparr>runAnalyzer := (\<lambda>a. None), stopSignal := StopSignalNone\<rparr>"
  obtain af where af: "spawnAnalyzers ?wf (prepared ?wf exampleExecutor exampleDS)
      exampleOptions exampleTemplates = Inr [af]"
    using example_spawn by blast
  obtain ac where ac: "spawnAnalyzers ?wc (prepared ?wc exampleExecutor exampleDS)
      exampleOptions exampleTemplates = Inr [ac]"
    using example_spawn by blast
  obtain an where an: "spawnAnalyzers ?wn (prepared ?wn exampleExecutor exampleDS)
      exampleOptions exampleTemplates = Inr [an]"
    using example_spawn by blast
  have ff: "\<exists>a\<in>set [af]. runAnalyzer ?wf a \<noteq> None"
    by simp
  have fc: "\<forall>a\<in>set [ac]. runAnalyzer ?wc a = None"
    by simp
  have fn: "\<forall>a\<in>set [an]. runAnalyzer ?wn a = None"
    by simp
  have dc: "determineStageStatus ?wc (stopSignal ?wc) (Stage_Status exampleExecutor) STAGE_SUCCESS =
      STAGE_CANCELLED"
    by (simp add: exampleWorld_def)
  have dn: "determineStageStatus ?wn (stopSignal ?wn) (Stage_Status exampleExecutor) STAGE_SUCCESS =
      STAGE_SUCCESS"
    by (simp add: exampleWorld_def)
  have tn: "timeNow ?wn = 1630000000"
    by (simp add: exampleWorld_def)
  have rf: "returned (Execute ?wf exampleExecutor) = Returns STAGE_FAILURE \<and>
      \<not> determined (Execute ?wf exampleExecutor) \<and>
      putAnalysisResult (Execute ?wf exampleExecutor) = None"
    using analyzer_error_is_stage_failure[of exampleExecutor ?wf] example_reach af ff by blast
  have "determined (Execute ?wc exampleExecutor) \<and>
      returned (Execute ?wc exampleExecutor) =
        Returns (determineStageStatus ?wc (stopSignal ?wc) (Stage_Status exampleExecutor)
                   STAGE_SUCCESS) \<and>
      putAnalysisResult (Execute ?wc exampleExecutor) =
        (if determineStageStatus ?wc (stopSignal ?wc) (Stage_Status exampleExecutor)
              STAGE_SUCCESS = STAGE_SUCCESS
         then Some (timeNow ?wc) else None)"
    using analyzer_error_is_stage_failure[of exampleExecutor ?wc] example_reach ac fc by blast
  then have rc: "determined (Execute ?wc exampleExecutor) \<and>
      returned (Execute ?wc exampleExecutor) = Returns STAGE_CANCELLED \<and>
      putAnalysisResult (Execute ?wc exampleExecutor) = None"
    by (simp only: dc) simp
  have "determined (Execute ?wn exampleExecutor) \<and>
      returned (Execute ?wn exampleExecutor) =
        Returns (determineStageStatus ?wn (stopSignal ?wn) (Stage_Status exampleExecutor)
                   STAGE_SUCCESS) \<and>
      putAnalysisResult (Execute ?wn exampleExecutor) =
        (if determineStageStatus ?wn (stopSignal ?wn) (Stage_Status exampleExecutor)
              STAGE_SUCCESS = STAGE_SUCCESS
         then Some (timeNow ?wn) else None)"
    using analyzer_error_is_stage_failure[of exampleExecutor ?wn] example_reach an fn by blast
  then have rn: "determined (Execute ?wn exampleExecutor) \<and>
      returned (Execute ?wn exampleExecutor) = Returns STAGE_SUCCESS \<and>
      putAnalysisResult (Execute ?wn exampleExecutor) = Some 1630000000"
    by (simp only: dn tn) simp
  show ?thesis
    using rf rc rn by blast
qed

subsection \<open>The deadline and the saved elapsed time\<close>





subsection \<open>The arguments of a template\<close>

text \<open>
  C7. \<^verbatim>\<open>render\<close> executes the template on a context made of the user's arguments and the
  built-in fields \<^verbatim>\<open>App.Name\<close> (the name of the application), \<^verbatim>\<open>App.Env\<close> (always empty)
  and \<^verbatim>\<open>K8s.Namespace\<close>. The namespace is set only for a Kubernetes application: to the
  namespace of the deployment, or to \<^verbatim>\<open>default\<close> when the deployment names none; for any
  other kind of application it stays empty. In a template these fields print as those
  values, a user argument prints as its value, and the context has no other top-level
  field.
\<close>

theorem render_context:
  "(\<forall>c. config e = Some c \<and> Config_Kind c \<noteq> KindKubernetesApp
      \<longrightarrow> render L e templateCfg customArgs =
            renderTemplate L
              \<lparr>App_Name = Application_Name e, App_Env = [], K8s_Namespace = [],
               Args = customArgs\<rparr> templateCfg) \<and>
   (\<forall>c k. config e = Some c \<and> Config_Kind c = KindKubernetesApp \<and>
        Config_KubernetesDeploymentSpec c = Some k
      \<longrightarrow> render L e templateCfg customArgs =
            renderTemplate L
              \<lparr>App_Name = Application_Name e, App_Env = [],
               K8s_Namespace = (if Input_Namespace k = [] then ''default'' else Input_Namespace k),
               Args = customArgs\<rparr> templateCfg) \<and>
   (\<forall>a. renderArgs e customArgs = Inr a
      \<longrightarrow> templateExecute L [FieldNode [''App'', ''Name'']] a = Inr (Application_Name e) \<and>
          templateExecute L [FieldNode [''App'', ''Env'']] a = Inr [] \<and>
          templateExecute L [FieldNode [''K8s'', ''Namespace'']] a =
            Inr (case config e of
                   None \<Rightarrow> []
                 | Some c \<Rightarrow>
                     if Config_Kind c = KindKubernetesApp
                     then (case Config_KubernetesDeploymentSpec c of
                             None \<Rightarrow> []
                           | Some k \<Rightarrow>
                               if Input_Namespace k = [] then ''default'' else Input_Namespace k)
                     else []) \<and>
          (\<forall>key v. customArgs key = Some v
             \<longrightarrow> templateExecute L [FieldNode [''Args'', key]] a = Inr v) \<and>
          (\<forall>f. f \<noteq> ''App'' \<and> f \<noteq> ''K8s'' \<and> f \<noteq> ''Args''
             \<longrightarrow> templateExecute L [FieldNode [f]] a = Inl (cantEvaluateField f)))"
proof -
  have other: "render L e templateCfg customArgs =
            renderTemplate L
              \<lparr>App_Name = Application_Name e, App_Env = [], K8s_Namespace = [],
               Args = customArgs\<rparr> templateCfg"
    if "config e = Some c" "Config_Kind c \<noteq> KindKubernetesApp" for c
    using that by (simp add: render_def renderArgs_def)
  have k8s: "render L e templateCfg customArgs =
            renderTemplate L
              \<lparr>App_Name = Application_Name e, App_Env = [],
               K8s_Namespace = (if Input_Namespace k = [] then ''default'' else Input_Namespace k),
               Args = customArgs\<rparr> templateCfg"
    if "config e = Some c" "Config_Kind c = KindKubernetesApp"
      "Config_KubernetesDeploymentSpec c = Some k" for c k
    using that by (simp add: render_def renderArgs_def)
  have fields: "templateExecute L [FieldNode [''App'', ''Name'']] a = Inr (Application_Name e) \<and>
          templateExecute L [FieldNode [''App'', ''Env'']] a = Inr [] \<and>
          templateExecute L [FieldNode [''K8s'', ''Namespace'']] a =
            Inr (case config e of
                   None \<Rightarrow> []
                 | Some c \<Rightarrow>
                     if Config_Kind c = KindKubernetesApp
                     then (case Config_KubernetesDeploymentSpec c of
                             None \<Rightarrow> []
                           | Some k \<Rightarrow>
                               if Input_Namespace k = [] then ''default'' else Input_Namespace k)
                     else []) \<and>
          (\<forall>key v. customArgs key = Some v
             \<longrightarrow> templateExecute L [FieldNode [''Args'', key]] a = Inr v) \<and>
          (\<forall>f. f \<noteq> ''App'' \<and> f \<noteq> ''K8s'' \<and> f \<noteq> ''Args''
             \<longrightarrow> templateExecute L [FieldNode [f]] a = Inl (cantEvaluateField f))"
    if "renderArgs e customArgs = Inr a" for a
    using that
    by (auto simp add: renderArgs_def Let_def split: option.splits if_splits)
  show ?thesis
    using other k8s fields by blast
qed


theorem render_context_witness:
  "render exampleLib (exampleExecutor\<lparr>config := Some exampleConfig\<rparr>) contextTemplates
     [''job'' \<mapsto> ''foo''] = Inr (renderedAs ''demo//default/foo'') \<and>
   render exampleLib
     (exampleExecutor
        \<lparr>config := Some \<lparr>Config_Kind = KindKubernetesApp,
                           Config_KubernetesDeploymentSpec = Some \<lparr>Input_Namespace = ''prod''\<rparr>\<rparr>\<rparr>)
     contextTemplates [''job'' \<mapsto> ''foo''] = Inr (renderedAs ''demo//prod/foo'') \<and>
   render exampleLib
     (exampleExecutor
        \<lparr>config := Some \<lparr>Config_Kind = KindOtherApp ''LAMBDA'',
                           Config_KubernetesDeploymentSpec = None\<rparr>\<rparr>)
     contextTemplates [''job'' \<mapsto> ''foo''] = Inr (renderedAs ''demo///foo'')"
proof -
  let ?prod = "\<lparr>Config_Kind = KindKubernetesApp,
                 Config_KubernetesDeploymentSpec = Some \<lparr>Input_Namespace = ''prod''\<rparr>\<rparr>"
  let ?lambda = "\<lparr>Config_Kind = KindOtherApp ''LAMBDA'', Config_KubernetesDeploymentSpec = None\<rparr>"
  let ?e1 = "exampleExecutor\<lparr>config := Some exampleConfig\<rparr>"
  let ?e2 = "exampleExecutor\<lparr>config := Some ?prod\<rparr>"
  let ?e3 = "exampleExecutor\<lparr>config := Some ?lambda\<rparr>"
  let ?args = "[''job'' \<mapsto> ''foo'']"
  have h1: "config ?e1 = Some exampleConfig \<and> Config_Kind exampleConfig = KindKubernetesApp \<and>
      Config_KubernetesDeploymentSpec exampleConfig = Some \<lparr>Input_Namespace = []\<rparr>"
    by (simp add: exampleConfig_def)
  have h2: "config ?e2 = Some ?prod \<and> Config_Kind ?prod = KindKubernetesApp \<and>
      Config_KubernetesDeploymentSpec ?prod = Some \<lparr>Input_Namespace = ''prod''\<rparr>"
    by simp
  have h3: "config ?e3 = Some ?lambda \<and> Config_Kind ?lambda \<noteq> KindKubernetesApp"
    by simp
  have "render exampleLib ?e1 contextTemplates ?args =
      renderTemplate exampleLib
        \<lparr>App_Name = Application_Name ?e1, App_Env = [],
         K8s_Namespace = (if Input_Namespace \<lparr>Input_Namespace = []\<rparr> = [] then ''default''
                          else Input_Namespace \<lparr>Input_Namespace = []\<rparr>),
         Args = ?args\<rparr> contextTemplates"
    using render_context[of ?e1 exampleLib contextTemplates ?args] h1 by blast
  then have r1: "render exampleLib ?e1 contextTemplates ?args = Inr (renderedAs ''demo//default/foo'')"
    by (simp add: renderTemplate_def exampleLib_def contextTemplates_def renderedAs_def
          exampleExecutor_def)
  have "render exampleLib ?e2 contextTemplates ?args =
      renderTemplate exampleLib
        \<lparr>App_Name = Application_Name ?e2, App_Env = [],
         K8s_Namespace = (if Input_Namespace \<lparr>Input_Namespace = ''prod''\<rparr> = [] then ''default''
                          else Input_Namespace \<lparr>Input_Namespace = ''prod''\<rparr>),
         Args = ?args\<rparr> contextTemplates"
    using render_context[of ?e2 exampleLib contextTemplates ?args] h2 by blast
  then have r2: "render exampleLib ?e2 contextTemplates ?args = Inr (renderedAs ''demo//prod/foo'')"
    by (simp add: renderTemplate_def exampleLib_def contextTemplates_def renderedAs_def
          exampleExecutor_def)
  have "render exampleLib ?e3 contextTemplates ?args =
      renderTemplate exampleLib
        \<lparr>App_Name = Application_Name ?e3, App_Env = [], K8s_Namespace = [], Args = ?args\<rparr>
        contextTemplates"
    using render_context[of ?e3 exampleLib contextTemplates ?args] h3 by blast
  then have r3: "render exampleLib ?e3 contextTemplates ?args = Inr (renderedAs ''demo///foo'')"
    by (simp add: renderTemplate_def exampleLib_def contextTemplates_def renderedAs_def
          exampleExecutor_def)
  show ?thesis
    using r1 r2 r3 by blast
qed

end
